theory Spec2Isabelle
  imports Main
begin

section \<open>JavaScript values used by the conversion workflow\<close>

text \<open>
  The value \<open>response.json()\<close> delivers. A number is kept as the text that the
  language's number-to-string conversion gives for it (\<open>''0''\<close> for both zeros), which is
  all the program can observe of it: it tests values for truthiness and turns them into
  message strings. An object is the list of its own properties.
\<close>

datatype jsval =
    JNull
  | JBool bool
  | JNum string
  | JStr string
  | JArr "jsval list"
  | JObj "(string \<times> jsval) list"

text \<open>The messages of the two TypeErrors the engine itself can raise in the workflow.\<close>

record engine =
  null_read_message :: "string \<Rightarrow> string"
  to_primitive_message :: string

definition v8 :: engine where
  "v8 = \<lparr> null_read_message =
            (\<lambda>k. ''Cannot read properties of null (reading '' @ [CHR 0x27] @ k @ [CHR 0x27] @ '')''),
          to_primitive_message = ''Cannot convert object to primitive value'' \<rparr>"

text \<open>ToBoolean, as \<open>||\<close> and \<open>if\<close> apply it.\<close>

fun truthy :: "jsval \<Rightarrow> bool" where
  "truthy JNull = False"
| "truthy (JBool b) = b"
| "truthy (JNum s) = (s \<noteq> ''0'' \<and> s \<noteq> ''NaN'')"
| "truthy (JStr s) = (s \<noteq> [])"
| "truthy (JArr xs) = True"
| "truthy (JObj kvs) = True"

text \<open>ToBoolean of a value that may be undefined (\<open>None\<close>).\<close>

definition truthy_opt :: "jsval option \<Rightarrow> bool" where
  "truthy_opt v = (case v of None \<Rightarrow> False | Some x \<Rightarrow> truthy x)"

text \<open>
  \<open>v.k\<close> for the two property names the program reads, \<open>success\<close> and \<open>detail\<close>, which no
  prototype defines: on null the read throws, on an object it finds the own property, and
  everywhere else it is undefined (\<open>None\<close>). \<open>Inl\<close> carries the message of the thrown error.
\<close>

fun read_prop :: "engine \<Rightarrow> jsval \<Rightarrow> string \<Rightarrow> string + jsval option" where
  "read_prop eng JNull k = Inl (null_read_message eng k)"
| "read_prop eng (JObj kvs) k = Inr (map_of kvs k)"
| "read_prop eng v k = Inr None"

text \<open>
  ToString, as \<open>new Error(v)\<close> applies it to its argument. An array joins its elements
  with commas, null elements giving the empty string; a plain object gives
  \<open>[object Object]\<close>, unless an own property hides \<open>toString\<close>, when the conversion throws.
\<close>

fun to_string :: "engine \<Rightarrow> jsval \<Rightarrow> string + string"
  and join_elems :: "engine \<Rightarrow> jsval list \<Rightarrow> string + string" where
  "to_string eng JNull = Inr ''null''"
| "to_string eng (JBool b) = Inr (if b then ''true'' else ''false'')"
| "to_string eng (JNum s) = Inr s"
| "to_string eng (JStr s) = Inr s"
| "to_string eng (JArr xs) = join_elems eng xs"
| "to_string eng (JObj kvs) =
     (if ''toString'' \<in> fst ` set kvs then Inl (to_primitive_message eng)
      else Inr ''[object Object]'')"
| "join_elems eng [] = Inr []"
| "join_elems eng (x # xs) =
     (case (if x = JNull then Inr [] else to_string eng x) of
        Inl m \<Rightarrow> Inl m
      | Inr s \<Rightarrow>
          (if xs = [] then Inr s
           else (case join_elems eng xs of
                   Inl m \<Rightarrow> Inl m
                 | Inr r \<Rightarrow> Inr (s @ '','' @ r))))"

text \<open>The decimal numeral of a status code, as a template literal prints it.\<close>

fun decimal :: "nat \<Rightarrow> string" where
  "decimal n =
     (if n < 10 then [char_of (48 + n)]
      else decimal (n div 10) @ [char_of (48 + n mod 10)])"

section \<open>Files, responses and the application state\<close>

record jsfile =
  file_name :: string
  file_type :: string
  file_size :: nat

text \<open>
  The resolved \<open>fetch\<close>: the status and what \<open>response.json()\<close> settles to (\<open>Inl m\<close>: it
  rejects with an error of message \<open>m\<close>). \<open>response.ok\<close> is the status range 200 to 299.
\<close>

record response =
  status :: nat
  body_json :: "string + jsval"

definition ok :: "response \<Rightarrow> bool" where
  "ok r = (200 \<le> status r \<and> status r \<le> 299)"

datatype fetch_outcome = Rejected string | Responded response

datatype STATES = IDLE | PREVIEW | PROCESSING | DONE | ERROR

datatype input_mode = Image | Text

text \<open>The textarea's content is a sequence of UTF-16 code units.\<close>

type_synonym jstext = "nat list"

datatype request = PostConvert jsfile | PostConvertText jstext

text \<open>
  The eight \<open>useState\<close> cells of \<open>App\<close>, and the part of the browser the handlers act on:
  the object URLs created and not yet revoked, the running intervals, the requests issued
  so far, and the attempts whose \<open>fetch\<close> has not settled (each known by its interval id).
\<close>

record app =
  state :: STATES
  inputMode :: input_mode
  "file" :: "jsfile option"
  preview :: "nat option"
  result :: "jsval option"
  error :: string
  processingStep :: nat
  previewFailed :: bool
  object_urls :: "nat set"
  next_url :: nat
  intervals :: "nat set"
  next_interval :: nat
  requests :: "request list"
  inflight :: "nat list"

definition init :: app where
  "init = \<lparr> state = IDLE, inputMode = Image, file = None, preview = None, result = None,
            error = [], processingStep = 0, previewFailed = False,
            object_urls = {}, next_url = 0, intervals = {}, next_interval = 0,
            requests = [], inflight = [] \<rparr>"

text \<open>The five status lines (their leading pictographs left out).\<close>

definition PROCESSING_STEPS :: "string list" where
  "PROCESSING_STEPS =
     [''Analyzing your flowchart...'', ''Extracting shapes & text...'',
      ''Detecting connections & arrows...'', ''Building Excalidraw elements...'',
      ''Almost there...'']"

definition validTypes :: "string list" where
  "validTypes = [''image/jpeg'', ''image/png'', ''image/webp'', ''image/heic'', ''image/bmp'']"

section \<open>The handlers of App\<close>

definition handleFileSelected :: "jsfile \<Rightarrow> app \<Rightarrow> app" where
  "handleFileSelected selectedFile w =
     (if file_type selectedFile \<notin> set validTypes then
        w\<lparr> error := ''Please upload a JPG, PNG, or WebP image.'', state := ERROR \<rparr>
      else if file_size selectedFile > 20 * 1024 * 1024 then
        w\<lparr> error := ''Image is too large. Maximum size is 20MB.'', state := ERROR \<rparr>
      else
        w\<lparr> file := Some selectedFile,
           preview := Some (next_url w),
           object_urls := insert (next_url w) (object_urls w),
           next_url := Suc (next_url w),
           previewFailed := False,
           state := PREVIEW \<rparr>)"

text \<open>
  \<open>handleConvert\<close> up to its first \<open>await\<close>: the guard, the two state updates, the
  interval and the request.
\<close>

definition handleConvert :: "app \<Rightarrow> app" where
  "handleConvert w =
     (case file w of
        None \<Rightarrow> w
      | Some f \<Rightarrow>
          w\<lparr> state := PROCESSING,
             processingStep := 0,
             intervals := insert (next_interval w) (intervals w),
             next_interval := Suc (next_interval w),
             requests := requests w @ [PostConvert f],
             inflight := inflight w @ [next_interval w] \<rparr>)"

definition handleTextConvert :: "jstext \<Rightarrow> app \<Rightarrow> app" where
  "handleTextConvert t w =
     w\<lparr> state := PROCESSING,
        processingStep := 0,
        intervals := insert (next_interval w) (intervals w),
        next_interval := Suc (next_interval w),
        requests := requests w @ [PostConvertText t],
        inflight := inflight w @ [next_interval w] \<rparr>"

text \<open>
  The \<open>try\<close> block after the \<open>fetch\<close> has settled, the same text in both handlers: \<open>Inl m\<close>
  is an error of message \<open>m\<close> thrown to the \<open>catch\<close> clause, \<open>Inr data\<close> the payload that
  reached \<open>setResult\<close>.
\<close>

definition try_block :: "engine \<Rightarrow> fetch_outcome \<Rightarrow> string + jsval" where
  "try_block eng out =
     (case out of
        Rejected m \<Rightarrow> Inl m
      | Responded r \<Rightarrow>
          if \<not> ok r then
            (case read_prop eng (case body_json r of Inl m \<Rightarrow> JObj [] | Inr v \<Rightarrow> v) ''detail'' of
               Inl m \<Rightarrow> Inl m
             | Inr None \<Rightarrow> Inl (''Server error ('' @ decimal (status r) @ '')'')
             | Inr (Some d) \<Rightarrow>
                 if truthy d then
                   (case to_string eng d of Inl m \<Rightarrow> Inl m | Inr s \<Rightarrow> Inl s)
                 else Inl (''Server error ('' @ decimal (status r) @ '')''))
          else
            (case body_json r of
               Inl m \<Rightarrow> Inl m
             | Inr data \<Rightarrow>
                 (case read_prop eng data ''success'' of
                    Inl m \<Rightarrow> Inl m
                  | Inr None \<Rightarrow> Inl ''Conversion failed. Please try again.''
                  | Inr (Some s) \<Rightarrow>
                      if truthy s then Inr data
                      else Inl ''Conversion failed. Please try again.'')))"

text \<open>
  The rest of an attempt, run when its \<open>fetch\<close> settles: the interval \<open>stepInterval\<close> is
  cleared on every path, then the outcome is stored. Nothing is read from the current
  state.
\<close>

definition resume :: "engine \<Rightarrow> nat \<Rightarrow> fetch_outcome \<Rightarrow> app \<Rightarrow> app" where
  "resume eng stepInterval out w =
     (let w1 = w\<lparr> intervals := intervals w - {stepInterval},
                  inflight := removeAll stepInterval (inflight w) \<rparr>
      in case try_block eng out of
           Inr data \<Rightarrow> w1\<lparr> result := Some data, state := DONE \<rparr>
         | Inl m \<Rightarrow>
             w1\<lparr> error := (if m \<noteq> [] then m else ''Something went wrong. Please try again.''),
                 state := ERROR \<rparr>)"

definition handleReset :: "app \<Rightarrow> app" where
  "handleReset w =
     (case preview w of
        Some u \<Rightarrow> w\<lparr> object_urls := object_urls w - {u} \<rparr>
      | None \<Rightarrow> w)
     \<lparr> file := None, preview := None, result := None, error := [], state := IDLE \<rparr>"

text \<open>The interval's callback.\<close>

definition tick :: "app \<Rightarrow> app" where
  "tick w =
     w\<lparr> processingStep :=
          (if processingStep w < length PROCESSING_STEPS - 1 then processingStep w + 1
           else processingStep w) \<rparr>"

section \<open>TextInputZone\<close>

text \<open>The code units \<open>trim\<close> removes: white space and line terminators.\<close>

definition is_space :: "nat \<Rightarrow> bool" where
  "is_space c =
     (c \<in> {0x9, 0xA, 0xB, 0xC, 0xD, 0x20, 0xA0, 0x1680, 0x2028, 0x2029, 0x202F, 0x205F,
            0x3000, 0xFEFF}
      \<or> (0x2000 \<le> c \<and> c \<le> 0x200A))"

definition trim :: "jstext \<Rightarrow> jstext" where
  "trim t = rev (dropWhile is_space (rev (dropWhile is_space t)))"

definition handleSubmit :: "(jstext \<Rightarrow> app \<Rightarrow> app) \<Rightarrow> jstext \<Rightarrow> app \<Rightarrow> app" where
  "handleSubmit onTextSubmit t w = (if trim t \<noteq> [] then onTextSubmit t w else w)"

section \<open>The rendered controls\<close>

datatype event =
    SetInputMode input_mode
  | FileSelected jsfile
  | Convert
  | Reset
  | TextSubmit jstext
  | PreviewError
  | Tick nat
  | Resolve nat fetch_outcome

text \<open>
  Which events the rendered tree can deliver in a state: each control is in the tree
  under the condition its JSX branch is guarded by; an interval fires while it runs, and a
  \<open>fetch\<close> settles while it is in flight.
\<close>

fun enabled :: "app \<Rightarrow> event \<Rightarrow> bool" where
  "enabled w (SetInputMode m) = (state w = IDLE)"
| "enabled w (FileSelected f) =
     ((state w = IDLE \<and> inputMode w = Image)
      \<or> (state w = PREVIEW \<and> inputMode w = Image \<and> file w \<noteq> None))"
| "enabled w Convert = (state w = PREVIEW \<and> inputMode w = Image \<and> file w \<noteq> None)"
| "enabled w Reset =
     ((state w = PREVIEW \<and> inputMode w = Image \<and> file w \<noteq> None)
      \<or> (state w = DONE \<and> result w \<noteq> None)
      \<or> state w = ERROR)"
| "enabled w (TextSubmit t) = (state w = IDLE \<and> inputMode w = Text)"
| "enabled w PreviewError =
     (state w = PREVIEW \<and> inputMode w = Image \<and> file w \<noteq> None \<and> \<not> previewFailed w)"
| "enabled w (Tick i) = (i \<in> intervals w)"
| "enabled w (Resolve i out) = (i \<in> set (inflight w))"

fun fire :: "engine \<Rightarrow> event \<Rightarrow> app \<Rightarrow> app" where
  "fire eng (SetInputMode m) w = w\<lparr> inputMode := m \<rparr>"
| "fire eng (FileSelected f) w = handleFileSelected f w"
| "fire eng Convert w = handleConvert w"
| "fire eng Reset w = handleReset w"
| "fire eng (TextSubmit t) w = handleSubmit handleTextConvert t w"
| "fire eng PreviewError w = w\<lparr> previewFailed := True \<rparr>"
| "fire eng (Tick i) w = tick w"
| "fire eng (Resolve i out) w = resume eng i out w"

inductive reachable :: "engine \<Rightarrow> app \<Rightarrow> bool" for eng :: engine where
  start: "reachable eng init"
| step: "reachable eng w \<Longrightarrow> enabled w e \<Longrightarrow> reachable eng (fire eng e w)"

text \<open>A run of events from a state, and whether each was enabled when it fired.\<close>

fun run :: "engine \<Rightarrow> event list \<Rightarrow> app \<Rightarrow> app" where
  "run eng [] w = w"
| "run eng (e # es) w = run eng es (fire eng e w)"

fun admissible :: "engine \<Rightarrow> event list \<Rightarrow> app \<Rightarrow> bool" where
  "admissible eng [] w = True"
| "admissible eng (e # es) w = (enabled w e \<and> admissible eng es (fire eng e w))"

section \<open>Sample inputs\<close>

definition sample_png :: jsfile where
  "sample_png = \<lparr> file_name = ''flow.png'', file_type = ''image/png'', file_size = 2097152 \<rparr>"

definition sample_jpeg :: jsfile where
  "sample_jpeg = \<lparr> file_name = ''board.jpg'', file_type = ''image/jpeg'', file_size = 512000 \<rparr>"

definition sample_pdf :: jsfile where
  "sample_pdf = \<lparr> file_name = ''flow.pdf'', file_type = ''application/pdf'', file_size = 1024 \<rparr>"

definition success_payload :: jsval where
  "success_payload = JObj [(''success'', JBool True), (''elements'', JArr [])]"

definition success_response :: response where
  "success_response = \<lparr> status = 200, body_json = Inr success_payload \<rparr>"

definition failure_payload :: jsval where
  "failure_payload = JObj [(''success'', JBool False)]"

definition failure_response :: response where
  "failure_response = \<lparr> status = 200, body_json = Inr failure_payload \<rparr>"

definition gateway_response :: response where
  "gateway_response =
     \<lparr> status = 502, body_json = Inl ''Unexpected token < in JSON at position 0'' \<rparr>"

definition null_response :: response where
  "null_response = \<lparr> status = 500, body_json = Inr JNull \<rparr>"

definition numeric_detail_response :: response where
  "numeric_detail_response =
     \<lparr> status = 422, body_json = Inr (JObj [(''detail'', JNum ''42'')]) \<rparr>"

definition oom_response :: response where
  "oom_response = \<lparr> status = 500, body_json = Inr (JObj [(''detail'', JStr ''OOM'')]) \<rparr>"

definition empty_list_detail_response :: response where
  "empty_list_detail_response = \<lparr> status = 500, body_json = Inr (JObj [(''detail'', JArr [])]) \<rparr>"

section \<open>The invariant of the rendered workflow\<close>

text \<open>
  What holds in every state the rendered controls can reach. While Processing exactly one
  attempt is in flight, and the file held is the one its request carries.
\<close>

definition wf :: "app \<Rightarrow> bool" where
  "wf w =
     ((file w = None \<longleftrightarrow> preview w = None)
      \<and> (file w \<noteq> None \<longrightarrow> inputMode w = Image)
      \<and> intervals w = set (inflight w)
      \<and> (case state w of
            IDLE \<Rightarrow> file w = None \<and> result w = None \<and> error w = [] \<and> inflight w = []
          | PREVIEW \<Rightarrow> file w \<noteq> None \<and> result w = None \<and> error w = [] \<and> inflight w = []
          | PROCESSING \<Rightarrow>
              result w = None \<and> error w = [] \<and> (\<exists>i. inflight w = [i]) \<and> requests w \<noteq> []
              \<and> (case last (requests w) of
                    PostConvert f \<Rightarrow> file w = Some f
                  | PostConvertText t \<Rightarrow> file w = None \<and> inputMode w = Text)
          | DONE \<Rightarrow> result w \<noteq> None \<and> error w = [] \<and> inflight w = []
          | ERROR \<Rightarrow> result w = None \<and> error w \<noteq> [] \<and> inflight w = []))"


text \<open>Every text that was submitted to the service is non-empty after trimming.\<close>

definition text_requests_trimmed :: "app \<Rightarrow> bool" where
  "text_requests_trimmed w = (\<forall>t. PostConvertText t \<in> set (requests w) \<longrightarrow> trim t \<noteq> [])"

lemmas handler_defs =
  handleFileSelected_def handleConvert_def handleTextConvert_def handleReset_def
  handleSubmit_def tick_def resume_def try_block_def ok_def validTypes_def init_def

lemmas sample_defs =
  sample_png_def sample_jpeg_def sample_pdf_def success_payload_def success_response_def
  oom_response_def empty_list_detail_response_def failure_payload_def failure_response_def
  gateway_response_def null_response_def numeric_detail_response_def

lemma wf_init: "wf init"
  by (simp add: wf_def init_def)

lemma wf_handleFileSelected:
  "wf w \<Longrightarrow> enabled w (FileSelected f) \<Longrightarrow> wf (handleFileSelected f w)"
  by (auto simp: wf_def handleFileSelected_def)

lemma wf_handleConvert: "wf w \<Longrightarrow> enabled w Convert \<Longrightarrow> wf (handleConvert w)"
  by (auto simp: wf_def handleConvert_def)

lemma wf_handleReset: "wf w \<Longrightarrow> enabled w Reset \<Longrightarrow> wf (handleReset w)"
  by (auto simp: wf_def handleReset_def split: option.splits)

lemma wf_handleSubmit:
  "wf w \<Longrightarrow> enabled w (TextSubmit t) \<Longrightarrow> wf (handleSubmit handleTextConvert t w)"
  by (auto simp: wf_def handleSubmit_def handleTextConvert_def)

lemma wf_tick: "wf w \<Longrightarrow> wf (tick w)"
  by (auto simp: wf_def tick_def split: STATES.splits request.splits)

lemma wf_resume:
  assumes "wf w" and "enabled w (Resolve i out)"
  shows "wf (resume eng i out w)"
proof -
  from assms have p: "state w = PROCESSING"
    by (cases "state w") (auto simp: wf_def)
  with assms have "inflight w = [i]"
    by (auto simp: wf_def)
  with assms p show ?thesis
    by (auto simp: wf_def resume_def Let_def split: sum.splits)
qed

lemma wf_fire: "wf w \<Longrightarrow> enabled w e \<Longrightarrow> wf (fire eng e w)"
proof (cases e)
  case (SetInputMode m)
  assume "wf w" "enabled w e"
  with SetInputMode show ?thesis by (auto simp: wf_def)
next
  case PreviewError
  assume "wf w" "enabled w e"
  with PreviewError show ?thesis by (auto simp: wf_def)
qed (simp_all add: wf_handleFileSelected wf_handleConvert wf_handleReset wf_handleSubmit
       wf_tick wf_resume)

lemma reachable_wf: "reachable eng w \<Longrightarrow> wf w"
  by (induction rule: reachable.induct) (simp_all add: wf_init wf_fire)

lemma reachable_run:
  "reachable eng w \<Longrightarrow> admissible eng es w \<Longrightarrow> reachable eng (run eng es w)"
  by (induction es arbitrary: w) (auto intro: reachable.step)

lemma resume_state:
  "state (resume eng i out w) = (case try_block eng out of Inl m \<Rightarrow> ERROR | Inr d \<Rightarrow> DONE)"
  by (simp add: resume_def Let_def split: sum.splits)

lemma resume_file: "file (resume eng i out w) = file w"
  by (simp add: resume_def Let_def split: sum.splits)

lemma trim_empty_iff: "trim t = [] \<longleftrightarrow> (\<forall>c\<in>set t. is_space c)"
proof -
  have "trim t = [] \<longleftrightarrow> (\<forall>c\<in>set (dropWhile is_space t). is_space c)"
    by (simp add: trim_def)
  also have "\<dots> \<longleftrightarrow> (\<forall>c\<in>set t. is_space c)"
  proof
    assume a: "\<forall>c\<in>set (dropWhile is_space t). is_space c"
    show "\<forall>c\<in>set t. is_space c"
    proof (rule ccontr)
      assume "\<not> (\<forall>c\<in>set t. is_space c)"
      then have ne: "dropWhile is_space t \<noteq> []" by simp
      then have "\<not> is_space (hd (dropWhile is_space t))" by (rule hd_dropWhile)
      moreover have "hd (dropWhile is_space t) \<in> set (dropWhile is_space t)" using ne by simp
      ultimately show False using a by blast
    qed
  next
    assume "\<forall>c\<in>set t. is_space c"
    then show "\<forall>c\<in>set (dropWhile is_space t). is_space c"
      by (meson set_dropWhileD)
  qed
  finally show ?thesis .
qed

lemma text_requests_trimmed_fire:
  "text_requests_trimmed w \<Longrightarrow> text_requests_trimmed (fire eng e w)"
  by (cases e)
     (auto simp: text_requests_trimmed_def handleFileSelected_def handleConvert_def
        handleTextConvert_def handleReset_def handleSubmit_def tick_def resume_def Let_def
        split: option.splits sum.splits)

lemma reachable_text_requests_trimmed: "reachable eng w \<Longrightarrow> text_requests_trimmed w"
  by (induction rule: reachable.induct)
     (simp_all add: text_requests_trimmed_fire, simp add: text_requests_trimmed_def init_def)




lemma handleReset_effect:
  "state (handleReset w) = IDLE
   \<and> result (handleReset w) = None
   \<and> error (handleReset w) = []
   \<and> file (handleReset w) = None
   \<and> preview (handleReset w) = None
   \<and> object_urls (handleReset w) = object_urls w - set_option (preview w)"
  by (auto simp: handleReset_def split: option.splits)

section \<open>Claims\<close>

text \<open>
  Throughout, \<open>reachable\<close> is reachability through the rendered controls; it takes the child
  components to call their callbacks from user events only, while they are mounted.
\<close>



text \<open>
  C2, as stated, fails: after a 2 MB PNG is selected, confirmed and converted, the state is
  Done and the file is still held.
\<close>

theorem selected_image_still_held_in_done:
  "reachable v8
     (run v8 [FileSelected sample_png, Convert, Resolve 0 (Responded success_response)] init)
   \<and> state
       (run v8 [FileSelected sample_png, Convert, Resolve 0 (Responded success_response)] init)
       = DONE
   \<and> file
       (run v8 [FileSelected sample_png, Convert, Resolve 0 (Responded success_response)] init)
       = Some sample_png"
proof -
  have "reachable v8
     (run v8 [FileSelected sample_png, Convert, Resolve 0 (Responded success_response)] init)"
    by (rule reachable_run [OF reachable.start]) (simp add: handler_defs sample_defs)
  then show ?thesis
    by (simp add: handler_defs sample_defs)
qed

text \<open>
  C2, amended: in every reachable state no SelectedImage is held in Idle, one is held in
  Preview, and in Processing the one held is the file of the request in flight (none when
  the request in flight is a text submission); a file is held exactly when a preview
  handle is. The resolution of an attempt leaves the file as it is, so an image stays held
  in Done and Failed until reset.
\<close>

theorem selected_image_presence:
  assumes "reachable eng w"
  shows "(state w = IDLE \<longrightarrow> file w = None)
         \<and> (state w = PREVIEW \<longrightarrow> file w \<noteq> None)
         \<and> (state w = PROCESSING \<longrightarrow>
              (case last (requests w) of
                 PostConvert f \<Rightarrow> file w = Some f
               | PostConvertText t \<Rightarrow> file w = None))
         \<and> (file w = None \<longleftrightarrow> preview w = None)
         \<and> (\<forall>i out. file (resume eng i out w) = file w)"
proof -
  from assms have "wf w" by (rule reachable_wf)
  then show ?thesis
    by (cases "state w") (auto simp: wf_def resume_file split: request.splits)
qed

theorem selected_image_presence_witness:
  "reachable v8 init \<and> state init = IDLE \<and> file init = None
   \<and> reachable v8 (run v8 [FileSelected sample_png] init)
   \<and> state (run v8 [FileSelected sample_png] init) = PREVIEW
   \<and> file (run v8 [FileSelected sample_png] init) \<noteq> None
   \<and> reachable v8 (run v8 [FileSelected sample_png, Convert] init)
   \<and> state (run v8 [FileSelected sample_png, Convert] init) = PROCESSING
   \<and> last (requests (run v8 [FileSelected sample_png, Convert] init)) = PostConvert sample_png
   \<and> file (run v8 [FileSelected sample_png, Convert] init) = Some sample_png"
proof -
  have r: "reachable v8 (run v8 [FileSelected sample_png, Convert] init)"
    and q: "reachable v8 (run v8 [FileSelected sample_png] init)"
    by (rule reachable_run [OF reachable.start], simp add: handler_defs sample_defs)+
  have s: "state (run v8 [FileSelected sample_png, Convert] init) = PROCESSING"
    and l: "last (requests (run v8 [FileSelected sample_png, Convert] init))
              = PostConvert sample_png"
    and p: "state (run v8 [FileSelected sample_png] init) = PREVIEW"
    and i: "state init = IDLE"
    by (simp_all add: handler_defs sample_defs)
  from selected_image_presence [OF r] s l
  have "file (run v8 [FileSelected sample_png, Convert] init) = Some sample_png"
    by simp
  with selected_image_presence [OF q] selected_image_presence [OF reachable.start [of v8]]
    s l p i r q reachable.start [of v8]
  show ?thesis by blast
qed

text \<open>
  C3 fails on the code: \<open>handleFileSelected\<close> replaces the preview handle without revoking
  the one it held, which only \<open>handleReset\<close> does. Selecting a PNG and then a JPEG in
  Preview leaves both object URLs live, and the reset that follows revokes only the second.
\<close>

theorem second_selection_leaves_first_handle_live:
  "reachable v8 (run v8 [FileSelected sample_png, FileSelected sample_jpeg] init)
   \<and> state (run v8 [FileSelected sample_png] init) = PREVIEW
   \<and> preview (run v8 [FileSelected sample_png] init) = Some 0
   \<and> preview (run v8 [FileSelected sample_png, FileSelected sample_jpeg] init) = Some 1
   \<and> object_urls (run v8 [FileSelected sample_png, FileSelected sample_jpeg] init) = {0, 1}
   \<and> object_urls (run v8 [FileSelected sample_png, FileSelected sample_jpeg, Reset] init) = {0}"
proof -
  have "reachable v8 (run v8 [FileSelected sample_png, FileSelected sample_jpeg] init)"
    by (rule reachable_run [OF reachable.start]) (simp add: handler_defs sample_defs)
  then show ?thesis
    by (auto simp add: handler_defs sample_defs)
qed

text \<open>
  C4: a candidate is rejected, that is, the state becomes Failed, exactly when its declared
  type is outside the five whitelisted media types or its size exceeds 20 MiB = 20971520
  bytes. A rejection leaves a non-empty message and neither takes the file nor creates a
  preview handle; an accepted candidate gives Preview holding it. No candidate, rejected or
  accepted, issues a request, starts an attempt or starts a timer.
\<close>

theorem validation_rejects_iff:
  "(state (handleFileSelected f w) = ERROR \<longleftrightarrow>
      file_type f \<notin> {''image/jpeg'', ''image/png'', ''image/webp'', ''image/heic'', ''image/bmp''}
      \<or> 20971520 < file_size f)
   \<and> (state (handleFileSelected f w) = ERROR \<longrightarrow>
        error (handleFileSelected f w)
          \<in> {''Please upload a JPG, PNG, or WebP image.'', ''Image is too large. Maximum size is 20MB.''}
        \<and> error (handleFileSelected f w) \<noteq> []
        \<and> file (handleFileSelected f w) = file w
        \<and> preview (handleFileSelected f w) = preview w
        \<and> object_urls (handleFileSelected f w) = object_urls w)
   \<and> (state (handleFileSelected f w) \<noteq> ERROR \<longrightarrow>
        state (handleFileSelected f w) = PREVIEW \<and> file (handleFileSelected f w) = Some f)
   \<and> requests (handleFileSelected f w) = requests w
   \<and> inflight (handleFileSelected f w) = inflight w
   \<and> intervals (handleFileSelected f w) = intervals w"
  by (simp add: handleFileSelected_def validTypes_def)

theorem validation_rejects_iff_witness:
  "state (handleFileSelected sample_pdf init) = ERROR
   \<and> error (handleFileSelected sample_pdf init) = ''Please upload a JPG, PNG, or WebP image.''
   \<and> requests (handleFileSelected sample_pdf init) = []
   \<and> state (handleFileSelected sample_png init) = PREVIEW
   \<and> file (handleFileSelected sample_png init) = Some sample_png"
proof -
  have e: "error (handleFileSelected sample_pdf init)
             = ''Please upload a JPG, PNG, or WebP image.''"
    by (simp add: handler_defs sample_defs)
  have t: "file_type sample_pdf
             \<notin> {''image/jpeg'', ''image/png'', ''image/webp'', ''image/heic'', ''image/bmp''}"
    by (simp add: sample_defs)
  have p: "\<not> (file_type sample_png
                 \<notin> {''image/jpeg'', ''image/png'', ''image/webp'', ''image/heic'', ''image/bmp''}
               \<or> 20971520 < file_size sample_png)"
    by (simp add: sample_defs)
  have r: "requests init = []"
    by (simp add: init_def)
  from validation_rejects_iff [of sample_pdf init] validation_rejects_iff [of sample_png init]
    e t p r
  show ?thesis by simp
qed

text \<open>
  C5 fails on the code, by the defect of C3. Reset does give Idle with no result, no error,
  no file and no preview handle held, and it revokes the handle that was held
  (\<open>handleReset_effect\<close>); but after a PNG and then a JPEG were selected in Preview, the
  reset that the Preview card offers leaves the object URL of the PNG live.
\<close>

theorem reset_after_replaced_selection_leaves_handle_live:
  "reachable v8 (run v8 [FileSelected sample_png, FileSelected sample_jpeg] init)
   \<and> enabled (run v8 [FileSelected sample_png, FileSelected sample_jpeg] init) Reset
   \<and> state (handleReset (run v8 [FileSelected sample_png, FileSelected sample_jpeg] init)) = IDLE
   \<and> preview (handleReset (run v8 [FileSelected sample_png, FileSelected sample_jpeg] init))
       = None
   \<and> object_urls (handleReset (run v8 [FileSelected sample_png, FileSelected sample_jpeg] init))
       = {0}"
proof -
  have "reachable v8 (run v8 [FileSelected sample_png, FileSelected sample_jpeg] init)"
    by (rule reachable_run [OF reachable.start]) (simp add: handler_defs sample_defs)
  then show ?thesis
    by (auto simp add: handler_defs sample_defs)
qed

text \<open>
  C6: in every reachable state a result is held exactly in Done, an error message exactly
  in Failed, and never both. The reachable states cover every interleaving of the enabled
  events, timer ticks and settling requests among them; no attempt settles after its
  Processing state was left, since only its own settling leaves it.
\<close>

theorem result_iff_done_error_iff_failed:
  assumes "reachable eng w"
  shows "(result w \<noteq> None \<longleftrightarrow> state w = DONE)
         \<and> (error w \<noteq> [] \<longleftrightarrow> state w = ERROR)
         \<and> \<not> (result w \<noteq> None \<and> error w \<noteq> [])"
proof -
  from assms have "wf w" by (rule reachable_wf)
  then show ?thesis
    by (cases "state w") (auto simp: wf_def)
qed

theorem result_iff_done_error_iff_failed_witness:
  "reachable v8
     (run v8 [FileSelected sample_png, Convert, Resolve 0 (Responded success_response)] init)
   \<and> state
       (run v8 [FileSelected sample_png, Convert, Resolve 0 (Responded success_response)] init)
       = DONE
   \<and> result
       (run v8 [FileSelected sample_png, Convert, Resolve 0 (Responded success_response)] init)
       \<noteq> None
   \<and> error
       (run v8 [FileSelected sample_png, Convert, Resolve 0 (Responded success_response)] init)
       = []"
proof -
  have r: "reachable v8
     (run v8 [FileSelected sample_png, Convert, Resolve 0 (Responded success_response)] init)"
    by (rule reachable_run [OF reachable.start]) (simp add: handler_defs sample_defs)
  have s: "state
       (run v8 [FileSelected sample_png, Convert, Resolve 0 (Responded success_response)] init)
       = DONE"
    by (simp add: handler_defs sample_defs)
  from result_iff_done_error_iff_failed [OF r] r s show ?thesis by simp
qed

text \<open>
  C7: an attempt (of either handler) settles with a success status and a payload whose
  \<open>success\<close> property can be read. If the flag is truthy the state becomes Done and the
  payload itself, whatever else it holds, is the result; if it is falsy or missing the
  state becomes Failed with the message \<open>Conversion failed. Please try again.\<close> and the
  result is left alone. (The one payload whose flag cannot be read is null.)
\<close>

theorem success_status_outcome:
  assumes "ok r" and "body_json r = Inr data" and "read_prop eng data ''success'' = Inr flag"
  shows "(truthy_opt flag \<longrightarrow>
            state (resume eng i (Responded r) w) = DONE
            \<and> result (resume eng i (Responded r) w) = Some data
            \<and> error (resume eng i (Responded r) w) = error w)
         \<and> (\<not> truthy_opt flag \<longrightarrow>
            state (resume eng i (Responded r) w) = ERROR
            \<and> error (resume eng i (Responded r) w) = ''Conversion failed. Please try again.''
            \<and> result (resume eng i (Responded r) w) = result w)"
  using assms
  by (auto simp: resume_def try_block_def truthy_opt_def Let_def split: option.splits)

theorem success_status_outcome_witness:
  "ok success_response
   \<and> read_prop v8 success_payload ''success'' = Inr (Some (JBool True))
   \<and> truthy_opt (Some (JBool True))
   \<and> state (resume v8 0 (Responded success_response)
              (run v8 [FileSelected sample_png, Convert] init)) = DONE
   \<and> result (resume v8 0 (Responded success_response)
               (run v8 [FileSelected sample_png, Convert] init)) = Some success_payload
   \<and> ok failure_response
   \<and> read_prop v8 failure_payload ''success'' = Inr (Some (JBool False))
   \<and> \<not> truthy_opt (Some (JBool False))
   \<and> state (resume v8 0 (Responded failure_response)
              (run v8 [FileSelected sample_png, Convert] init)) = ERROR
   \<and> error (resume v8 0 (Responded failure_response)
              (run v8 [FileSelected sample_png, Convert] init))
       = ''Conversion failed. Please try again.''"
proof -
  have a: "ok success_response" "ok failure_response"
    by (simp_all add: ok_def sample_defs)
  have b: "body_json success_response = Inr success_payload"
    "body_json failure_response = Inr failure_payload"
    by (simp_all add: sample_defs)
  have c: "read_prop v8 success_payload ''success'' = Inr (Some (JBool True))"
    "read_prop v8 failure_payload ''success'' = Inr (Some (JBool False))"
    by (simp_all add: sample_defs)
  have d: "truthy_opt (Some (JBool True))" "\<not> truthy_opt (Some (JBool False))"
    by (simp_all add: truthy_opt_def)
  from success_status_outcome
         [OF a(1) b(1) c(1), of 0 "run v8 [FileSelected sample_png, Convert] init"]
       success_status_outcome
         [OF a(2) b(2) c(2), of 0 "run v8 [FileSelected sample_png, Convert] init"]
       a c d
  show ?thesis by simp
qed

text \<open>
  C8, as stated, fails: a 500 response whose body is \<open>{"detail": []}\<close> has a detail field,
  yet the message shown is neither that field nor one that embeds the status code. The
  empty array is truthy, \<open>new Error\<close> turns it into the empty message, and the \<open>catch\<close>
  clause replaces the empty message by its own fallback.
\<close>

theorem empty_list_detail_gives_fallback_message:
  "\<not> ok empty_list_detail_response
   \<and> state (resume v8 0 (Responded empty_list_detail_response)
              (run v8 [FileSelected sample_png, Convert] init)) = ERROR
   \<and> error (resume v8 0 (Responded empty_list_detail_response)
              (run v8 [FileSelected sample_png, Convert] init))
       = ''Something went wrong. Please try again.''"
  by (simp add: handler_defs sample_defs)

text \<open>
  C8, amended: an attempt that settles with a non-success status always resolves to Failed
  with a non-empty message and leaves the result alone. When the body is JSON other than
  null and its \<open>detail\<close> is truthy, the message is the detail converted to a string, the
  detail itself when it is a string (\<open>OOM\<close> for \<open>{"detail":"OOM"}\<close>, \<open>42\<close> for the number
  42); only when that conversion is empty, or throws with an empty message, is the message
  the fallback \<open>Something went wrong. Please try again.\<close>, and a conversion that throws
  gives the thrown message. When the body is not JSON, or is JSON other than null whose
  \<open>detail\<close> is missing or falsy, the message is \<open>Server error (status)\<close>, with the status
  in decimal. When the body is JSON null, reading \<open>detail\<close> throws and the message is that
  of the thrown error (the fallback, were it empty).
\<close>

theorem non_success_status_outcome:
  assumes "\<not> ok r"
  shows "state (resume eng i (Responded r) w) = ERROR
         \<and> result (resume eng i (Responded r) w) = result w
         \<and> error (resume eng i (Responded r) w) \<noteq> []
         \<and> (\<forall>kvs d. body_json r = Inr (JObj kvs) \<and> map_of kvs ''detail'' = Some (JStr d)
                  \<and> d \<noteq> []
              \<longrightarrow> error (resume eng i (Responded r) w) = d)
         \<and> (\<forall>v d s. body_json r = Inr v \<and> read_prop eng v ''detail'' = Inr (Some d)
                  \<and> truthy d \<and> to_string eng d = Inr s \<and> s \<noteq> []
              \<longrightarrow> error (resume eng i (Responded r) w) = s)
         \<and> (\<forall>v d. body_json r = Inr v \<and> read_prop eng v ''detail'' = Inr (Some d)
                  \<and> truthy d \<and> to_string eng d = Inr []
              \<longrightarrow> error (resume eng i (Responded r) w)
                    = ''Something went wrong. Please try again.'')
         \<and> (\<forall>v d m. body_json r = Inr v \<and> read_prop eng v ''detail'' = Inr (Some d)
                  \<and> truthy d \<and> to_string eng d = Inl m
              \<longrightarrow> error (resume eng i (Responded r) w)
                    = (if m \<noteq> [] then m else ''Something went wrong. Please try again.''))
         \<and> ((case body_json r of
                Inl m \<Rightarrow> True
              | Inr v \<Rightarrow> (\<exists>d. read_prop eng v ''detail'' = Inr d \<and> \<not> truthy_opt d))
              \<longrightarrow> error (resume eng i (Responded r) w)
                    = ''Server error ('' @ decimal (status r) @ '')'')
         \<and> (body_json r = Inr JNull
              \<longrightarrow> error (resume eng i (Responded r) w)
                    = (if null_read_message eng ''detail'' \<noteq> []
                       then null_read_message eng ''detail''
                       else ''Something went wrong. Please try again.''))"
  using assms
  by (auto simp: resume_def try_block_def truthy_opt_def Let_def simp del: decimal.simps
        split: option.splits sum.splits)

theorem non_success_status_outcome_witness:
  "\<not> ok oom_response
   \<and> state (resume v8 0 (Responded oom_response)
              (run v8 [FileSelected sample_png, Convert] init)) = ERROR
   \<and> error (resume v8 0 (Responded oom_response)
              (run v8 [FileSelected sample_png, Convert] init)) = ''OOM''
   \<and> \<not> ok numeric_detail_response
   \<and> error (resume v8 0 (Responded numeric_detail_response)
              (run v8 [FileSelected sample_png, Convert] init)) = ''42''
   \<and> \<not> ok gateway_response
   \<and> error (resume v8 0 (Responded gateway_response)
              (run v8 [FileSelected sample_png, Convert] init)) = ''Server error (502)''
   \<and> \<not> ok null_response
   \<and> error (resume v8 0 (Responded null_response)
              (run v8 [FileSelected sample_png, Convert] init))
       = null_read_message v8 ''detail''"
proof -
  have a: "\<not> ok oom_response" "\<not> ok gateway_response" "\<not> ok numeric_detail_response"
    "\<not> ok null_response"
    by (simp_all add: ok_def sample_defs)
  have b: "body_json oom_response = Inr (JObj [(''detail'', JStr ''OOM'')])
           \<and> map_of [(''detail'', JStr ''OOM'')] ''detail'' = Some (JStr ''OOM'')
           \<and> ''OOM'' \<noteq> []"
    by (simp add: sample_defs)
  have c: "case body_json gateway_response of
             Inl m \<Rightarrow> True
           | Inr v \<Rightarrow> (\<exists>d. read_prop v8 v ''detail'' = Inr d \<and> \<not> truthy_opt d)"
    by (simp add: sample_defs)
  have "decimal 502 = ''502''"
    by code_simp
  then have d: "''Server error ('' @ decimal (status gateway_response) @ '')''
                  = ''Server error (502)''"
    by (simp add: sample_defs del: decimal.simps)
  have n: "body_json numeric_detail_response = Inr (JObj [(''detail'', JNum ''42'')])
           \<and> read_prop v8 (JObj [(''detail'', JNum ''42'')]) ''detail'' = Inr (Some (JNum ''42''))
           \<and> truthy (JNum ''42'') \<and> to_string v8 (JNum ''42'') = Inr ''42'' \<and> ''42'' \<noteq> []"
    by (simp add: sample_defs)
  have z: "body_json null_response = Inr JNull" "null_read_message v8 ''detail'' \<noteq> []"
    by (simp_all add: sample_defs v8_def)
  from non_success_status_outcome
         [OF a(1), of v8 0 "run v8 [FileSelected sample_png, Convert] init"] b
  have e: "state (resume v8 0 (Responded oom_response)
              (run v8 [FileSelected sample_png, Convert] init)) = ERROR
    \<and> error (resume v8 0 (Responded oom_response)
              (run v8 [FileSelected sample_png, Convert] init)) = ''OOM''"
    by blast
  from non_success_status_outcome
         [OF a(2), of v8 0 "run v8 [FileSelected sample_png, Convert] init"] c
  have g: "error (resume v8 0 (Responded gateway_response)
              (run v8 [FileSelected sample_png, Convert] init))
          = ''Server error ('' @ decimal (status gateway_response) @ '')''"
    by blast
  from non_success_status_outcome
         [OF a(3), of v8 0 "run v8 [FileSelected sample_png, Convert] init"] n
  have h: "error (resume v8 0 (Responded numeric_detail_response)
              (run v8 [FileSelected sample_png, Convert] init)) = ''42''"
    by blast
  from non_success_status_outcome
         [OF a(4), of v8 0 "run v8 [FileSelected sample_png, Convert] init"] z
  have k: "error (resume v8 0 (Responded null_response)
              (run v8 [FileSelected sample_png, Convert] init))
          = null_read_message v8 ''detail''"
    by presburger
  from d a e g h k show ?thesis
    by (simp del: decimal.simps run.simps)
qed

text \<open>
  C9: for a text that is empty or consists of white space only, the submit handler of the
  text zone does nothing, whatever callback it was given: the convert event leaves the
  application as it was (in particular Idle, with no request issued), and no reachable
  state has issued a text request for such a text. Every text request that was issued
  carries a text that is non-empty after trimming.
\<close>

theorem blank_text_is_never_submitted:
  assumes "\<forall>c\<in>set t. is_space c"
  shows "handleSubmit onTextSubmit t w = w
         \<and> fire eng (TextSubmit t) w = w
         \<and> (\<forall>v. reachable eng v \<longrightarrow> PostConvertText t \<notin> set (requests v))
         \<and> (\<forall>v u. reachable eng v \<and> PostConvertText u \<in> set (requests v) \<longrightarrow> trim u \<noteq> [])"
proof -
  from assms have e: "trim t = []"
    by (simp add: trim_empty_iff)
  have n: "trim u \<noteq> []" if "reachable eng v" and "PostConvertText u \<in> set (requests v)"
    for v u
    using reachable_text_requests_trimmed [OF that(1)] that(2)
    by (simp add: text_requests_trimmed_def)
  then have m: "PostConvertText t \<notin> set (requests v)" if "reachable eng v" for v
    using that e by blast
  have "handleSubmit onTextSubmit t w = w" and "fire eng (TextSubmit t) w = w"
    using e by (simp_all add: handleSubmit_def)
  with n m show ?thesis
    by blast
qed

theorem blank_text_is_never_submitted_witness:
  "list_all is_space [0x20, 0x9, 0xA, 0x3000]
   \<and> state (fire v8 (SetInputMode Text) init) = IDLE
   \<and> fire v8 (TextSubmit [0x20, 0x9, 0xA, 0x3000]) (fire v8 (SetInputMode Text) init)
       = fire v8 (SetInputMode Text) init
   \<and> reachable v8 (run v8 [SetInputMode Text, TextSubmit [0x20, 0x41, 0x20]] init)
   \<and> requests (run v8 [SetInputMode Text, TextSubmit [0x20, 0x41, 0x20]] init)
       = [PostConvertText [0x20, 0x41, 0x20]]
   \<and> trim [0x20, 0x41, 0x20] \<noteq> []"
proof -
  have a: "\<forall>c\<in>set [0x20, 0x9, 0xA, 0x3000]. is_space c"
    by (simp add: is_space_def)
  then have b: "list_all is_space [0x20, 0x9, 0xA, 0x3000]"
    by (simp add: list_all_iff)
  have s: "state (fire v8 (SetInputMode Text) init) = IDLE"
    by (simp add: init_def)
  have t: "trim [0x20, 0x41, 0x20] = [0x41]"
    by (simp add: trim_def is_space_def)
  have q: "reachable v8 (run v8 [SetInputMode Text, TextSubmit [0x20, 0x41, 0x20]] init)"
    by (rule reachable_run [OF reachable.start]) (simp add: handler_defs t)
  have l: "requests (run v8 [SetInputMode Text, TextSubmit [0x20, 0x41, 0x20]] init)
             = [PostConvertText [0x20, 0x41, 0x20]]"
    by (simp add: handler_defs t)
  then have m: "PostConvertText [0x20, 0x41, 0x20]
                  \<in> set (requests (run v8 [SetInputMode Text, TextSubmit [0x20, 0x41, 0x20]] init))"
    by (simp del: run.simps)
  from blank_text_is_never_submitted
         [OF a, of handleTextConvert "fire v8 (SetInputMode Text) init" v8] b s q l m
  show ?thesis by blast
qed

text \<open>
  C10: when no file is held, the convert handler returns at its guard: the whole
  application state is unchanged, so the state cell is as before, no interval was started
  and no request was issued.
\<close>

theorem convert_without_file_is_noop:
  assumes "file w = None"
  shows "handleConvert w = w"
  using assms by (simp add: handleConvert_def)

theorem convert_without_file_is_noop_witness:
  "file init = None \<and> handleConvert init = init
   \<and> state (handleConvert init) = IDLE \<and> intervals (handleConvert init) = {}
   \<and> requests (handleConvert init) = []"
proof -
  have a: "file init = None"
    by (simp add: init_def)
  from convert_without_file_is_noop [OF a] a show ?thesis
    by (simp add: init_def)
qed

end
